theory Spec2Isabelle
  imports Complex_Main "HOL-Library.Word" "HOL-Library.AList"
begin

unbundle bit_operations_syntax

section \<open>The webhook relay of \<^verbatim>\<open>src/app/api/webhook/route.ts\<close>\<close>

text \<open>
  The route handler \<^verbatim>\<open>POST\<close> receives a request, parses its body, answers the
  subscription handshake or checks the request's signature, derives a small record
  from the payload and upserts it in a remote collection with two \<^verbatim>\<open>fetch\<close> calls.

  The TypeScript types of the file are erased when it runs, and the payload is cast
  (\<^verbatim>\<open>as NotionWebhookBody\<close>), so the model works on JavaScript values as the handler
  meets them. A JavaScript string is modelled as a \<^typ>\<open>string\<close>: its code units are
  the 8-bit characters of HOL, which covers every header value (a header is a byte
  string) and every text of Latin-1 code points.
\<close>

subsection \<open>JavaScript values\<close>

text \<open>
  A number is the value of the double that the runtime holds; \<^verbatim>\<open>JSON.parse\<close>
  never produces NaN.
\<close>

datatype number = Finite rat | PosInfinity | NegInfinity

datatype jsval =
    Undefined
  | Null
  | Bool bool
  | Num number
  | Str string
  | Arr "jsval list"
  | Obj "(string \<times> jsval) list"

text \<open>The exceptions that the handler can meet; each is a value of the model.\<close>

datatype error =
    SyntaxError   \<comment> \<open>\<^verbatim>\<open>JSON.parse\<close> on a text that is not JSON\<close>
  | TypeError     \<comment> \<open>a property read on \<^verbatim>\<open>undefined\<close> or \<^verbatim>\<open>null\<close>, a value with no string form\<close>
  | RangeError    \<comment> \<open>\<^verbatim>\<open>timingSafeEqual\<close> on buffers of different lengths\<close>
  | FetchFailed   \<comment> \<open>the promise of \<^verbatim>\<open>fetch\<close> rejected\<close>

definition bind_err :: "error + 'a \<Rightarrow> ('a \<Rightarrow> error + 'b) \<Rightarrow> error + 'b" where
  "bind_err m f = (case m of Inl e \<Rightarrow> Inl e | Inr x \<Rightarrow> f x)"

text \<open>\<^verbatim>\<open>!v\<close> is \<open>\<not> truthy v\<close>.\<close>

fun truthy :: "jsval \<Rightarrow> bool" where
  "truthy Undefined = False"
| "truthy Null = False"
| "truthy (Bool b) = b"
| "truthy (Num n) = (n \<noteq> Finite 0)"
| "truthy (Str s) = (s \<noteq> [])"
| "truthy (Arr xs) = True"
| "truthy (Obj kvs) = True"

fun nullish :: "jsval \<Rightarrow> bool" where
  "nullish Undefined = True"
| "nullish Null = True"
| "nullish v = False"

text \<open>
  \<open>lookup_member v k\<close> is the value of \<^verbatim>\<open>v.k\<close> for a value \<open>v\<close> that is neither
  \<^verbatim>\<open>undefined\<close> nor \<^verbatim>\<open>null\<close> and a name \<open>k\<close> that is no index, is not \<^verbatim>\<open>length\<close> and
  is not inherited from a prototype; every name that the handler reads
  (\<^verbatim>\<open>verification_token\<close>, \<^verbatim>\<open>pageId\<close>, \<^verbatim>\<open>properties\<close>, \<^verbatim>\<open>Name\<close>, \<^verbatim>\<open>title\<close>, \<^verbatim>\<open>Slug\<close>,
  \<^verbatim>\<open>Content\<close>, \<^verbatim>\<open>rich_text\<close>, \<^verbatim>\<open>plain_text\<close>, \<^verbatim>\<open>items\<close>, \<^verbatim>\<open>_id\<close>) is such a name.
  Only an object has own properties under these names.
\<close>

fun lookup_member :: "jsval \<Rightarrow> string \<Rightarrow> jsval" where
  "lookup_member (Obj kvs) k = (case map_of kvs k of None \<Rightarrow> Undefined | Some v \<Rightarrow> v)"
| "lookup_member v k = Undefined"

text \<open>\<^verbatim>\<open>v.k\<close>: a TypeError on \<^verbatim>\<open>undefined\<close> and \<^verbatim>\<open>null\<close>.\<close>

definition member :: "jsval \<Rightarrow> string \<Rightarrow> error + jsval" where
  "member v k = (if nullish v then Inl TypeError else Inr (lookup_member v k))"

text \<open>\<^verbatim>\<open>v?.k\<close>: \<^verbatim>\<open>undefined\<close> on \<^verbatim>\<open>undefined\<close> and \<^verbatim>\<open>null\<close>.\<close>

definition optional_member :: "jsval \<Rightarrow> string \<Rightarrow> jsval" where
  "optional_member v k = (if nullish v then Undefined else lookup_member v k)"

text \<open>
  \<^verbatim>\<open>v[0]\<close>: the first element of an array, the first code unit of a string, the
  property \<^verbatim>\<open>"0"\<close> of an object, a TypeError on \<^verbatim>\<open>undefined\<close> and \<^verbatim>\<open>null\<close>.
\<close>

fun element0 :: "jsval \<Rightarrow> error + jsval" where
  "element0 Undefined = Inl TypeError"
| "element0 Null = Inl TypeError"
| "element0 (Arr xs) = Inr (case xs of [] \<Rightarrow> Undefined | x # _ \<Rightarrow> x)"
| "element0 (Str s) = Inr (case s of [] \<Rightarrow> Undefined | c # _ \<Rightarrow> Str [c])"
| "element0 (Obj kvs) = Inr (lookup_member (Obj kvs) ''0'')"
| "element0 v = Inr Undefined"

text \<open>
  The string form of a value, as a template literal \<^verbatim>\<open>`${v}`\<close> computes it. The
  printing of a number is the runtime's and is a parameter. An array prints its
  elements separated by commas, \<^verbatim>\<open>undefined\<close> and \<^verbatim>\<open>null\<close> elements as the empty
  string. An object prints as \<^verbatim>\<open>[object Object]\<close> through the inherited
  \<^verbatim>\<open>toString\<close>; an own property \<^verbatim>\<open>toString\<close> of a parsed object is not callable and
  hides the inherited one, and the conversion raises a TypeError.
\<close>

fun ToString :: "(number \<Rightarrow> string) \<Rightarrow> jsval \<Rightarrow> error + string"
  and join_elements :: "(number \<Rightarrow> string) \<Rightarrow> jsval list \<Rightarrow> error + string" where
  "ToString ns Undefined = Inr ''undefined''"
| "ToString ns Null = Inr ''null''"
| "ToString ns (Bool b) = Inr (if b then ''true'' else ''false'')"
| "ToString ns (Num n) = Inr (ns n)"
| "ToString ns (Str s) = Inr s"
| "ToString ns (Arr xs) = join_elements ns xs"
| "ToString ns (Obj kvs) =
     (if map_of kvs ''toString'' = None then Inr ''[object Object]'' else Inl TypeError)"
| "join_elements ns [] = Inr []"
| "join_elements ns (x # xs) =
     bind_err (if nullish x then Inr [] else ToString ns x) (\<lambda>a.
       if xs = [] then Inr a
       else bind_err (join_elements ns xs) (\<lambda>b. Inr (a @ '','' @ b)))"

text \<open>A template literal over a value that is a string or \<^verbatim>\<open>undefined\<close>.\<close>

definition template_str :: "string option \<Rightarrow> string" where
  "template_str v = (case v of None \<Rightarrow> ''undefined'' | Some s \<Rightarrow> s)"

subsection \<open>Buffers\<close>

text \<open>
  \<^verbatim>\<open>Buffer.from(s)\<close> is the UTF-8 encoding of the string: one byte for a code unit
  below 128, two bytes for the others of Latin-1.
\<close>

type_synonym byte = "8 word"

definition utf8_unit :: "char \<Rightarrow> byte list" where
  "utf8_unit c =
     (let n = (of_char c :: nat)
      in if n < 128 then [of_nat n] else [of_nat (192 + n div 64), of_nat (128 + n mod 64)])"

definition Buffer_from :: "string \<Rightarrow> byte list" where
  "Buffer_from s = concat (map utf8_unit s)"

text \<open>
  \<^verbatim>\<open>crypto.timingSafeEqual(a, b)\<close> raises a RangeError when the byte lengths differ.
  Otherwise it folds the differences of all byte pairs into one accumulator and answers
  whether the accumulator stayed zero.
\<close>

fun diff_scan :: "(byte \<times> byte) list \<Rightarrow> byte \<Rightarrow> byte" where
  "diff_scan [] acc = acc"
| "diff_scan ((x, y) # ps) acc = diff_scan ps (acc OR (x XOR y))"

definition timingSafeEqual :: "byte list \<Rightarrow> byte list \<Rightarrow> error + bool" where
  "timingSafeEqual a b =
     (if length a \<noteq> length b then Inl RangeError
      else Inr (diff_scan (zip a b) 0 = 0))"

subsection \<open>The runtime and the remote service\<close>

text \<open>
  What the handler sends with \<^verbatim>\<open>fetch\<close> and returns in a \<^verbatim>\<open>Response\<close>.
  \<open>JSON_stringify v\<close> stands for the text that \<^verbatim>\<open>JSON.stringify\<close> makes of the
  value \<open>v\<close>; the serialisation itself is not modelled (it leaves out the properties
  of an object whose value is \<^verbatim>\<open>undefined\<close>).
\<close>

datatype payload = Plain string | JSON_stringify jsval

record fetch_request =
  url :: string
  http_method :: string
  headers :: "(string \<times> string) list"
  fetch_body :: "payload option"

text \<open>
  A \<^verbatim>\<open>fetch\<close> either rejects or resolves to a response, of which the handler reads
  the status (for logging only) and \<^verbatim>\<open>res.json()\<close>: \<open>None\<close> when decoding the body
  fails.
\<close>

datatype fetch_result = Rejected | Resolved nat "jsval option"

text \<open>
  The functions of the runtime that the handler calls and that are no code of the
  repository are parameters of the model: \<^verbatim>\<open>JSON.parse\<close> (\<open>None\<close> is its
  SyntaxError), the hexadecimal digest
  \<^verbatim>\<open>createHmac('sha256', key).update(data).digest('hex')\<close>, the printing of numbers,
  and the remote service behind \<^verbatim>\<open>fetch\<close>. One run of the handler sends requests
  that differ pairwise, so a function of the request stands for any behaviour of the
  service during the run.
\<close>

record platform =
  JSON_parse :: "string \<Rightarrow> jsval option"
  hmac_sha256_hex :: "string \<Rightarrow> string \<Rightarrow> string"
  Number_toString :: "number \<Rightarrow> string"
  fetch :: "fetch_request \<Rightarrow> fetch_result"

text \<open>
  \<^verbatim>\<open>process.env\<close> and the three constants that the module reads from it once.
  \<^verbatim>\<open>process.env.X || ''\<close> is the empty string for a variable that is unset or empty.
\<close>

type_synonym process_env = "string \<rightharpoonup> string"

definition NOTION_WEBHOOK_VERIFICATION_TOKEN :: "process_env \<Rightarrow> string" where
  "NOTION_WEBHOOK_VERIFICATION_TOKEN penv =
     (case penv ''NOTION_WEBHOOK_VERIFICATION_TOKEN'' of
        None \<Rightarrow> []
      | Some s \<Rightarrow> if s \<noteq> [] then s else [])"

definition WEBFLOW_API_TOKEN :: "process_env \<Rightarrow> string option" where
  "WEBFLOW_API_TOKEN penv = penv ''WEBFLOW_SITE_API_TOKEN''"

definition COLLECTION_ID :: "process_env \<Rightarrow> string option" where
  "COLLECTION_ID penv = penv ''WEBFLOW_COLLECTION_ID''"

subsection \<open>Signatures\<close>

definition calculateNotionSignature :: "platform \<Rightarrow> string \<Rightarrow> string \<Rightarrow> string" where
  "calculateNotionSignature rt rawBody verificationToken =
     ''sha256='' @ hmac_sha256_hex rt verificationToken rawBody"

text \<open>
  \<open>headerSignature\<close> is \<open>None\<close> for \<^verbatim>\<open>null\<close>. \<^verbatim>\<open>!s\<close> holds of \<^verbatim>\<open>null\<close> and of the
  empty string.
\<close>

definition isValidSignature :: "platform \<Rightarrow> string \<Rightarrow> string option \<Rightarrow> string \<Rightarrow> error + bool" where
  "isValidSignature rt rawBody headerSignature verificationToken =
     (case headerSignature of
        None \<Rightarrow> Inr False
      | Some h \<Rightarrow>
          if h = [] \<or> verificationToken = [] then Inr False
          else
            let calc = calculateNotionSignature rt rawBody verificationToken;
                a = Buffer_from calc;
                b = Buffer_from h
            in if length a \<noteq> length b then Inr False else timingSafeEqual a b)"

subsection \<open>The record derived from an event\<close>

record NotionData =
  id' :: jsval
  title :: jsval
  slug :: jsval
  content :: jsval

text \<open>\<^verbatim>\<open>runs[0]?.plain_text\<close>\<close>

definition first_plain_text :: "jsval \<Rightarrow> error + jsval" where
  "first_plain_text runs = bind_err (element0 runs) (\<lambda>run. Inr (optional_member run ''plain_text''))"

text \<open>
  The object literal \<^verbatim>\<open>notionData\<close> of \<^verbatim>\<open>POST\<close>. Its four properties are evaluated
  in order, and the first exception ends the handler:
  \<^verbatim>\<open>body.pageId\<close>,
  \<^verbatim>\<open>body.properties?.Name.title[0]?.plain_text\<close>,
  \<^verbatim>\<open>body.properties?.Slug?.rich_text[0]?.plain_text\<close>,
  \<^verbatim>\<open>body.properties?.Content?.rich_text[0]?.plain_text\<close>.
  An optional link \<^verbatim>\<open>?.\<close> on \<^verbatim>\<open>undefined\<close> or \<^verbatim>\<open>null\<close> ends the whole chain with
  \<^verbatim>\<open>undefined\<close>; a plain link \<^verbatim>\<open>.\<close> or \<^verbatim>\<open>[0]\<close> there raises a TypeError.
\<close>

definition optional_rich_text :: "jsval \<Rightarrow> string \<Rightarrow> error + jsval" where
  "optional_rich_text properties name =
     (if nullish properties \<or> nullish (lookup_member properties name) then Inr Undefined
      else bind_err (member (lookup_member properties name) ''rich_text'') first_plain_text)"

definition notionData_of :: "jsval \<Rightarrow> error + NotionData" where
  "notionData_of body =
     bind_err (member body ''pageId'') (\<lambda>pageId.
     bind_err (member body ''properties'') (\<lambda>properties.
     bind_err (if nullish properties then Inr Undefined
               else bind_err (member (lookup_member properties ''Name'') ''title'') first_plain_text)
       (\<lambda>title_text.
     bind_err (optional_rich_text properties ''Slug'') (\<lambda>slug_text.
     bind_err (optional_rich_text properties ''Content'') (\<lambda>content_text.
       Inr \<lparr>id' = pageId, title = title_text, slug = slug_text, content = content_text\<rparr>)))))"

subsection \<open>The upsert\<close>

definition items_url :: "process_env \<Rightarrow> string" where
  "items_url penv =
     ''https://api.webflow.com/v2/collections/'' @ template_str (COLLECTION_ID penv) @ ''/items''"

definition api_headers :: "process_env \<Rightarrow> (string \<times> string) list" where
  "api_headers penv =
     [(''Authorization'', ''Bearer '' @ template_str (WEBFLOW_API_TOKEN penv)),
      (''Content-Type'', ''application/json'')]"

text \<open>The lookup by slug; a \<^verbatim>\<open>fetch\<close> without a method is a GET.\<close>

definition find_request :: "process_env \<Rightarrow> string \<Rightarrow> fetch_request" where
  "find_request penv slug_str =
     \<lparr>url = items_url penv @ ''?slug='' @ slug_str, http_method = ''GET'',
      headers = api_headers penv, fetch_body = None\<rparr>"

text \<open>The body of both writes.\<close>

definition item_body :: "NotionData \<Rightarrow> payload" where
  "item_body notionData =
     JSON_stringify (Obj
       [(''isArchived'', Bool False),
        (''isDraft'', Bool False),
        (''fieldData'', Obj
           [(''name'', title notionData),
            (''slug'', slug notionData),
            (''content'', content notionData)])])"

definition update_request :: "process_env \<Rightarrow> string \<Rightarrow> NotionData \<Rightarrow> fetch_request" where
  "update_request penv item_str notionData =
     \<lparr>url = items_url penv @ ''/'' @ item_str, http_method = ''PATCH'',
      headers = api_headers penv, fetch_body = Some (item_body notionData)\<rparr>"

definition create_request :: "process_env \<Rightarrow> NotionData \<Rightarrow> fetch_request" where
  "create_request penv notionData =
     \<lparr>url = items_url penv, http_method = ''POST'',
      headers = api_headers penv, fetch_body = Some (item_body notionData)\<rparr>"

text \<open>\<^verbatim>\<open>res.json().catch(() => ({}))\<close>\<close>

definition json_or_empty :: "jsval option \<Rightarrow> jsval" where
  "json_or_empty j = (case j of None \<Rightarrow> Obj [] | Some v \<Rightarrow> v)"

fun isArray :: "jsval \<Rightarrow> bool" where
  "isArray (Arr xs) = True"
| "isArray v = False"

fun array_length :: "jsval \<Rightarrow> nat" where
  "array_length (Arr xs) = length xs"
| "array_length v = 0"

text \<open>
  One \<^verbatim>\<open>fetch\<close> of a write and the decoding of its answer. The result of the upsert
  is the list of the requests sent, in order, with the value returned or the
  exception raised.
\<close>

definition send_item :: "platform \<Rightarrow> fetch_request list \<Rightarrow> fetch_request \<Rightarrow> fetch_request list \<times> (error + jsval)" where
  "send_item rt sent req =
     (case fetch rt req of
        Rejected \<Rightarrow> (sent @ [req], Inl FetchFailed)
      | Resolved st j \<Rightarrow> (sent @ [req], Inr (json_or_empty j)))"

definition updateOrCreateWebflowItem ::
  "platform \<Rightarrow> process_env \<Rightarrow> NotionData \<Rightarrow> fetch_request list \<times> (error + jsval)" where
  "updateOrCreateWebflowItem rt penv notionData =
     (case ToString (Number_toString rt) (slug notionData) of
        Inl e \<Rightarrow> ([], Inl e)
      | Inr slug_str \<Rightarrow>
          (case fetch rt (find_request penv slug_str) of
             Rejected \<Rightarrow> ([find_request penv slug_str], Inl FetchFailed)
           | Resolved st j \<Rightarrow>
               let existing = json_or_empty j
               in if truthy existing \<and> isArray (lookup_member existing ''items'')
                     \<and> array_length (lookup_member existing ''items'') > 0
                  then
                    (case bind_err (element0 (lookup_member existing ''items'')) (\<lambda>item.
                          bind_err (member item ''_id'') (ToString (Number_toString rt))) of
                       Inl e \<Rightarrow> ([find_request penv slug_str], Inl e)
                     | Inr item_str \<Rightarrow>
                         send_item rt [find_request penv slug_str]
                           (update_request penv item_str notionData))
                  else
                    send_item rt [find_request penv slug_str] (create_request penv notionData)))"

subsection \<open>The handler\<close>

text \<open>
  A request: the text of \<^verbatim>\<open>req.text()\<close> and the value of
  \<^verbatim>\<open>req.headers.get('x-notion-signature')\<close>, \<open>None\<close> for \<^verbatim>\<open>null\<close>.
\<close>

record request =
  raw_text :: string
  x_notion_signature :: "string option"

text \<open>\<^verbatim>\<open>new Response(body)\<close> has status 200.\<close>

record response =
  status :: nat
  response_body :: payload

definition header_absent :: "string option \<Rightarrow> bool" where
  "header_absent h = (case h of None \<Rightarrow> True | Some s \<Rightarrow> s = [])"

text \<open>
  The handler returns the requests that it sent to the remote service, with its
  response or the exception that it did not catch. The calls of \<^verbatim>\<open>console.log\<close> have
  no part in either.
\<close>

definition POST :: "platform \<Rightarrow> process_env \<Rightarrow> request \<Rightarrow> fetch_request list \<times> (error + response)" where
  "POST rt penv req =
     (let rawBody = raw_text req
      in case JSON_parse rt rawBody of
           None \<Rightarrow> ([], Inl SyntaxError)
         | Some body \<Rightarrow>
             let headerSignature = x_notion_signature req
             in if header_absent headerSignature \<and> truthy (optional_member body ''verification_token'')
                then
                  (case member body ''verification_token'' of
                     Inl e \<Rightarrow> ([], Inl e)
                   | Inr token \<Rightarrow>
                       if NOTION_WEBHOOK_VERIFICATION_TOKEN penv \<noteq> []
                          \<and> token \<noteq> Str (NOTION_WEBHOOK_VERIFICATION_TOKEN penv)
                       then ([], Inr \<lparr>status = 401, response_body = Plain ''Verification token mismatch''\<rparr>)
                       else ([], Inr \<lparr>status = 200,
                                response_body = JSON_stringify (Obj [(''success'', Bool True)])\<rparr>))
                else
                  (case isValidSignature rt rawBody headerSignature (NOTION_WEBHOOK_VERIFICATION_TOKEN penv) of
                     Inl e \<Rightarrow> ([], Inl e)
                   | Inr False \<Rightarrow> ([], Inr \<lparr>status = 401, response_body = Plain ''Invalid signature''\<rparr>)
                   | Inr True \<Rightarrow>
                       (case notionData_of body of
                          Inl e \<Rightarrow> ([], Inl e)
                        | Inr notionData \<Rightarrow>
                            (case updateOrCreateWebflowItem rt penv notionData of
                               (sent, Inl e) \<Rightarrow> (sent, Inl e)
                             | (sent, Inr webflowResponse) \<Rightarrow>
                                 (sent, Inr \<lparr>status = 200,
                                    response_body = JSON_stringify (Obj
                                      [(''success'', Bool True),
                                       (''webflowResponse'', webflowResponse)])\<rparr>)))))"

subsection \<open>A platform for evaluation\<close>

text \<open>
  The theorems below hold for every platform. To run the handler on a concrete request,
  a platform is needed: \<open>read_json\<close> reads a JSON text as \<^verbatim>\<open>JSON.parse\<close> does, an
  object keeping the last value of a repeated key at the place of the first. It reads
  a number as its decimal value (the rounding to a double is not modelled) and an
  escape \<^verbatim>\<open>\u\<close> only below 256, the code units of the model. The functions recurse
  on a counter that starts above the length of the text, and each call reads at least
  one character before it recurses.
\<close>

definition is_ws :: "char \<Rightarrow> bool" where
  "is_ws c = (c = CHR '' '' \<or> c = CHR 0x09 \<or> c = CHR 0x0A \<or> c = CHR 0x0D)"

fun skip_ws :: "string \<Rightarrow> string" where
  "skip_ws [] = []"
| "skip_ws (c # cs) = (if is_ws c then skip_ws cs else c # cs)"

definition is_digit :: "char \<Rightarrow> bool" where
  "is_digit c = (48 \<le> (of_char c :: nat) \<and> (of_char c :: nat) \<le> 57)"

definition hex_value :: "char \<Rightarrow> nat option" where
  "hex_value c =
     (let n = (of_char c :: nat)
      in if 48 \<le> n \<and> n \<le> 57 then Some (n - 48)
         else if 97 \<le> n \<and> n \<le> 102 then Some (n - 87)
         else if 65 \<le> n \<and> n \<le> 70 then Some (n - 55)
         else None)"

fun hex_number :: "nat \<Rightarrow> string \<Rightarrow> nat option" where
  "hex_number n [] = Some n"
| "hex_number n (c # cs) = (case hex_value c of None \<Rightarrow> None | Some d \<Rightarrow> hex_number (16 * n + d) cs)"

definition unescape :: "char \<Rightarrow> char option" where
  "unescape e =
     (if e = CHR 0x22 \<or> e = CHR 0x5C \<or> e = CHR ''/'' then Some e
      else if e = CHR ''b'' then Some (CHR 0x08)
      else if e = CHR ''f'' then Some (CHR 0x0C)
      else if e = CHR ''n'' then Some (CHR 0x0A)
      else if e = CHR ''r'' then Some (CHR 0x0D)
      else if e = CHR ''t'' then Some (CHR 0x09)
      else None)"

fun read_chars :: "string \<Rightarrow> string \<Rightarrow> (string \<times> string) option" where
  "read_chars acc [] = None"
| "read_chars acc (c # cs) =
     (if c = CHR 0x22 then Some (rev acc, cs)
      else if c = CHR 0x5C then
        (case cs of
           [] \<Rightarrow> None
         | e # r \<Rightarrow>
             if e = CHR ''u'' then
               (case hex_number 0 (take 4 r) of
                  None \<Rightarrow> None
                | Some n \<Rightarrow>
                    if 4 \<le> length r \<and> n < 256 then read_chars (char_of n # acc) (drop 4 r)
                    else None)
             else (case unescape e of None \<Rightarrow> None | Some x \<Rightarrow> read_chars (x # acc) r))
      else if (of_char c :: nat) < 32 then None
      else read_chars (c # acc) cs)"

definition digits_value :: "string \<Rightarrow> nat" where
  "digits_value ds = foldl (\<lambda>n c. 10 * n + (of_char c - 48)) 0 ds"

definition read_number :: "string \<Rightarrow> (jsval \<times> string) option" where
  "read_number s =
     (let negative = (s \<noteq> [] \<and> hd s = CHR ''-'');
          s1 = (if negative then tl s else s);
          ip = takeWhile is_digit s1;
          s2 = dropWhile is_digit s1;
          has_frac = (s2 \<noteq> [] \<and> hd s2 = CHR ''.'');
          fp = (if has_frac then takeWhile is_digit (tl s2) else []);
          s3 = (if has_frac then dropWhile is_digit (tl s2) else s2);
          has_exp = (s3 \<noteq> [] \<and> (hd s3 = CHR ''e'' \<or> hd s3 = CHR ''E''));
          s4 = (if has_exp then tl s3 else s3);
          exp_negative = (has_exp \<and> s4 \<noteq> [] \<and> hd s4 = CHR ''-'');
          s5 = (if has_exp \<and> s4 \<noteq> [] \<and> (hd s4 = CHR ''-'' \<or> hd s4 = CHR ''+'') then tl s4 else s4);
          ep = (if has_exp then takeWhile is_digit s5 else []);
          s6 = (if has_exp then dropWhile is_digit s5 else s3);
          mantissa = (of_nat (digits_value (ip @ fp)) :: rat);
          scaled = (if exp_negative then mantissa / 10 ^ (digits_value ep + length fp)
                    else mantissa * 10 ^ digits_value ep / 10 ^ length fp)
      in if ip = [] \<or> (1 < length ip \<and> hd ip = CHR ''0'') \<or> (has_frac \<and> fp = [])
            \<or> (has_exp \<and> ep = [])
         then None
         else Some (Num (Finite (if negative then - scaled else scaled)), s6))"

fun read_value :: "nat \<Rightarrow> string \<Rightarrow> (jsval \<times> string) option"
  and read_elements :: "nat \<Rightarrow> jsval list \<Rightarrow> string \<Rightarrow> (jsval \<times> string) option"
  and read_members :: "nat \<Rightarrow> (string \<times> jsval) list \<Rightarrow> string \<Rightarrow> (jsval \<times> string) option" where
  "read_value 0 s = None"
| "read_value (Suc fuel) s =
     (case skip_ws s of
        [] \<Rightarrow> None
      | c # cs \<Rightarrow>
          if c = CHR ''{'' then
            (case skip_ws cs of
               [] \<Rightarrow> None
             | d # ds \<Rightarrow> if d = CHR ''}'' then Some (Obj [], ds) else read_members fuel [] (d # ds))
          else if c = CHR ''['' then
            (case skip_ws cs of
               [] \<Rightarrow> None
             | d # ds \<Rightarrow> if d = CHR '']'' then Some (Arr [], ds) else read_elements fuel [] (d # ds))
          else if c = CHR 0x22 then
            (case read_chars [] cs of None \<Rightarrow> None | Some (str, rest) \<Rightarrow> Some (Str str, rest))
          else if take 4 (c # cs) = ''true'' then Some (Bool True, drop 4 (c # cs))
          else if take 5 (c # cs) = ''false'' then Some (Bool False, drop 5 (c # cs))
          else if take 4 (c # cs) = ''null'' then Some (Null, drop 4 (c # cs))
          else read_number (c # cs))"
| "read_elements 0 acc s = None"
| "read_elements (Suc fuel) acc s =
     (case read_value fuel s of
        None \<Rightarrow> None
      | Some (v, rest) \<Rightarrow>
          (case skip_ws rest of
             [] \<Rightarrow> None
           | c # cs \<Rightarrow>
               if c = CHR '','' then read_elements fuel (acc @ [v]) cs
               else if c = CHR '']'' then Some (Arr (acc @ [v]), cs)
               else None))"
| "read_members 0 acc s = None"
| "read_members (Suc fuel) acc s =
     (case skip_ws s of
        [] \<Rightarrow> None
      | q # s1 \<Rightarrow>
          if q \<noteq> CHR 0x22 then None
          else
            (case read_chars [] s1 of
               None \<Rightarrow> None
             | Some (k, s2) \<Rightarrow>
                 (case skip_ws s2 of
                    [] \<Rightarrow> None
                  | c # s3 \<Rightarrow>
                      if c \<noteq> CHR '':'' then None
                      else
                        (case read_value fuel s3 of
                           None \<Rightarrow> None
                         | Some (v, s4) \<Rightarrow>
                             (case skip_ws s4 of
                                [] \<Rightarrow> None
                              | d # s5 \<Rightarrow>
                                  if d = CHR '','' then read_members fuel (AList.update k v acc) s5
                                  else if d = CHR ''}'' then Some (Obj (AList.update k v acc), s5)
                                  else None)))))"

definition read_json :: "string \<Rightarrow> jsval option" where
  "read_json s =
     (case read_value (Suc (length s)) s of
        None \<Rightarrow> None
      | Some (v, rest) \<Rightarrow> if skip_ws rest = [] then Some v else None)"

text \<open>
  Stand-ins for the two other functions of the runtime: a digest of 64 hexadecimal
  digits that depends on the key and the data (a checksum, not HMAC-SHA256), and a
  printing of numbers that only tells the infinities apart.
\<close>

definition hex_digit :: "nat \<Rightarrow> char" where
  "hex_digit d = ''0123456789abcdef'' ! (d mod 16)"

definition checksum_hex :: "string \<Rightarrow> string \<Rightarrow> string" where
  "checksum_hex key data =
     (let n = sum_list (map of_char (key @ data)) mod 256
      in replicate 62 (CHR ''0'') @ [hex_digit (n div 16), hex_digit n])"

definition number_string :: "number \<Rightarrow> string" where
  "number_string n =
     (case n of Finite q \<Rightarrow> ''0'' | PosInfinity \<Rightarrow> ''Infinity'' | NegInfinity \<Rightarrow> ''-Infinity'')"

definition test_platform :: "(fetch_request \<Rightarrow> fetch_result) \<Rightarrow> platform" where
  "test_platform remote =
     \<lparr>JSON_parse = read_json, hmac_sha256_hex = checksum_hex,
      Number_toString = number_string, fetch = remote\<rparr>"

definition env_shh :: process_env where
  "env_shh =
     [''NOTION_WEBHOOK_VERIFICATION_TOKEN'' \<mapsto> ''shh'',
      ''WEBFLOW_SITE_API_TOKEN'' \<mapsto> ''key'',
      ''WEBFLOW_COLLECTION_ID'' \<mapsto> ''c1'']"

text \<open>The event of the end-to-end example and the value that it parses to.\<close>

definition raw_hello :: string where
  \<open>raw_hello = ''{"pageId":"p1","properties":{"Name":{"title":[{"plain_text":"Hello"}]},"Slug":{"rich_text":[{"plain_text":"hello"}]}}}''\<close>

definition body_hello :: jsval where
  "body_hello =
     Obj [(''pageId'', Str ''p1''),
          (''properties'', Obj
             [(''Name'', Obj [(''title'', Arr [Obj [(''plain_text'', Str ''Hello'')]])]),
              (''Slug'', Obj [(''rich_text'', Arr [Obj [(''plain_text'', Str ''hello'')]])])])]"

definition data_hello :: NotionData where
  "data_hello = \<lparr>id' = Str ''p1'', title = Str ''Hello'', slug = Str ''hello'', content = Undefined\<rparr>"



text \<open>A signed request: the header is the signature of the text under the secret.\<close>

definition signed_request :: "platform \<Rightarrow> string \<Rightarrow> string \<Rightarrow> request" where
  "signed_request rt secret raw =
     \<lparr>raw_text = raw, x_notion_signature = Some (calculateNotionSignature rt raw secret)\<rparr>"

text \<open>
  Remote services: one that finds nothing, one that finds the item \<^verbatim>\<open>i1\<close>, one that
  finds it and answers the write with status 500 and a body that is no JSON, one that
  answers every request so, and one that is unreachable.
\<close>

definition remote_empty :: "fetch_request \<Rightarrow> fetch_result" where
  "remote_empty r =
     (if http_method r = ''GET'' then Resolved 200 (Some (Obj [(''items'', Arr [])]))
      else Resolved 202 (Some (Obj [(''id'', Str ''i2'')])))"

definition remote_found :: "fetch_request \<Rightarrow> fetch_result" where
  "remote_found r =
     (if http_method r = ''GET'' then Resolved 200 (Some (Obj [(''items'', Arr [Obj [(''_id'', Str ''i1'')]])]))
      else Resolved 200 (Some (Obj [(''id'', Str ''i1'')])))"

definition remote_found_failing :: "fetch_request \<Rightarrow> fetch_result" where
  "remote_found_failing r =
     (if http_method r = ''GET'' then Resolved 200 (Some (Obj [(''items'', Arr [Obj [(''_id'', Str ''i1'')]])]))
      else Resolved 500 None)"

definition remote_failing :: "fetch_request \<Rightarrow> fetch_result" where
  "remote_failing r = Resolved 500 None"

definition remote_down :: "fetch_request \<Rightarrow> fetch_result" where
  "remote_down r = Rejected"

section \<open>Properties\<close>

subsection \<open>The comparison of signatures\<close>

lemma byte_xor_zero: "x XOR y = 0 \<longleftrightarrow> x = y" for x y :: byte
proof
  assume "x XOR y = 0"
  then have "(x XOR y) XOR y = 0 XOR y" by simp
  then show "x = y" by (simp add: xor.assoc)
qed simp

lemma diff_scan_zero:
  "length a = length b \<Longrightarrow> diff_scan (zip a b) acc = 0 \<longleftrightarrow> acc = 0 \<and> a = b"
proof (induction a arbitrary: b acc)
  case Nil
  then show ?case by simp
next
  case (Cons x xs)
  then obtain y ys where b: "b = y # ys" and len: "length xs = length ys"
    by (cases b) auto
  have "acc OR (x XOR y) = 0 \<longleftrightarrow> acc = 0 \<and> x = y"
    by (simp add: or_eq_0_iff byte_xor_zero)
  with Cons.IH [OF len] b show ?case by auto
qed

lemma timingSafeEqual_same_length:
  "length a = length b \<Longrightarrow> timingSafeEqual a b = Inr (a = b)"
  by (simp add: timingSafeEqual_def diff_scan_zero)

text \<open>The encoding of \<^verbatim>\<open>Buffer.from\<close> maps different strings to different bytes.\<close>

lemma utf8_unit_cases:
  "utf8_unit c = (if (of_char c :: nat) < 128 then [of_nat (of_char c)]
                  else [of_nat (192 + of_char c div 64), of_nat (128 + of_char c mod 64)])"
  by (simp add: utf8_unit_def Let_def)

lemma byte_of_nat_eq:
  "m < 256 \<Longrightarrow> n < 256 \<Longrightarrow> (of_nat m :: byte) = of_nat n \<longleftrightarrow> m = n"
  by (simp add: word_of_nat_eq_iff take_bit_nat_eq_self)

lemma of_char_bound: "(of_char c :: nat) < 256"
proof -
  have "(of_char c :: nat) mod 256 = of_char c" by (rule of_char_mod_256)
  then show ?thesis by (metis mod_less_divisor zero_less_numeral)
qed

lemma lead_byte_bound: "(m::nat) < 256 \<Longrightarrow> 192 + m div 64 < 256"
  by simp

lemma tail_byte_bound: "128 + (m::nat) mod 64 < 256"
  by simp

lemma utf8_unit_not_Nil: "utf8_unit c \<noteq> []"
  by (simp add: utf8_unit_cases)

lemma utf8_unit_low: "(of_char c :: nat) < 128 \<Longrightarrow> utf8_unit c = [of_nat (of_char c)]"
  by (simp only: utf8_unit_cases if_True)

lemma utf8_unit_high:
  "\<not> (of_char c :: nat) < 128 \<Longrightarrow>
   utf8_unit c = [of_nat (192 + of_char c div 64), of_nat (128 + of_char c mod 64)]"
  by (simp only: utf8_unit_cases if_False)

lemma lead_byte_differs:
  assumes "m < 128" and "n < 256"
  shows "(of_nat m :: byte) \<noteq> of_nat (192 + n div 64)"
proof -
  from assms have "m < 256" and "192 + n div 64 < 256" by simp_all
  then have "(of_nat m :: byte) = of_nat (192 + n div 64) \<longleftrightarrow> m = 192 + n div 64"
    by (rule byte_of_nat_eq)
  moreover from assms have "m \<noteq> 192 + n div 64" by simp
  ultimately show ?thesis by blast
qed

lemma lead_bytes_eq:
  assumes "m < 256" and "n < 256"
    and "(of_nat (192 + m div 64) :: byte) = of_nat (192 + n div 64)"
  shows "m div 64 = n div 64"
proof -
  from assms have "192 + m div 64 < 256" and "192 + n div 64 < 256" by simp_all
  then have "(of_nat (192 + m div 64) :: byte) = of_nat (192 + n div 64)
               \<longleftrightarrow> 192 + m div 64 = 192 + n div 64"
    by (rule byte_of_nat_eq)
  with assms(3) have "192 + m div 64 = 192 + n div 64" by blast
  then show ?thesis by simp
qed

lemma tail_bytes_eq:
  assumes "(of_nat (128 + m mod 64) :: byte) = of_nat (128 + n mod 64)"
  shows "m mod 64 = n mod 64"
proof -
  have "128 + m mod 64 < 256" and "128 + n mod 64 < 256" by simp_all
  then have "(of_nat (128 + m mod 64) :: byte) = of_nat (128 + n mod 64)
               \<longleftrightarrow> 128 + m mod 64 = 128 + n mod 64"
    by (rule byte_of_nat_eq)
  with assms have "128 + m mod 64 = 128 + n mod 64" by blast
  then show ?thesis by simp
qed

lemma utf8_unit_prefix_free:
  assumes "utf8_unit c @ xs = utf8_unit d @ ys"
  shows "c = d \<and> xs = ys"
proof -
  let ?m = "of_char c :: nat" and ?n = "of_char d :: nat"
  have bm: "?m < 256" and bn: "?n < 256" by (rule of_char_bound)+
  have "?m = ?n \<and> xs = ys"
  proof (cases "?m < 128"; cases "?n < 128")
    assume low: "?m < 128" "?n < 128"
    from assms have "(of_nat ?m :: byte) = of_nat ?n" and "xs = ys"
      by (simp_all only: utf8_unit_low [OF low(1)] utf8_unit_low [OF low(2)]
          append_Cons append_Nil list.inject)
    with bm bn show ?thesis by (simp only: byte_of_nat_eq)
  next
    assume c: "?m < 128" "\<not> ?n < 128"
    from assms have "(of_nat ?m :: byte) = of_nat (192 + ?n div 64)"
      by (simp only: utf8_unit_low [OF c(1)] utf8_unit_high [OF c(2)]
          append_Cons append_Nil list.inject)
    with lead_byte_differs [OF c(1) bn] show ?thesis by blast
  next
    assume c: "\<not> ?m < 128" "?n < 128"
    from assms have "(of_nat ?n :: byte) = of_nat (192 + ?m div 64)"
      by (simp only: utf8_unit_low [OF c(2)] utf8_unit_high [OF c(1)]
          append_Cons append_Nil list.inject)
    with lead_byte_differs [OF c(2) bm] show ?thesis by blast
  next
    assume c: "\<not> ?m < 128" "\<not> ?n < 128"
    from assms have a: "(of_nat (192 + ?m div 64) :: byte) = of_nat (192 + ?n div 64)"
      and b: "(of_nat (128 + ?m mod 64) :: byte) = of_nat (128 + ?n mod 64)" and "xs = ys"
      by (simp_all only: utf8_unit_high [OF c(1)] utf8_unit_high [OF c(2)]
          append_Cons append_Nil list.inject)
    from lead_bytes_eq [OF bm bn a] tail_bytes_eq [OF b] have "?m = ?n"
      by (metis div_mult_mod_eq)
    with \<open>xs = ys\<close> show ?thesis by simp
  qed
  then show ?thesis by simp
qed

lemma Buffer_from_inject: "Buffer_from s = Buffer_from t \<longleftrightarrow> s = t"
proof
  show "s = t" if "Buffer_from s = Buffer_from t"
    using that
  proof (induction s arbitrary: t)
    case Nil
    then show ?case
      by (cases t) (simp_all add: Buffer_from_def utf8_unit_not_Nil)
  next
    case (Cons c s)
    show ?case
    proof (cases t)
      case Nil
      with Cons.prems show ?thesis by (simp add: Buffer_from_def utf8_unit_not_Nil)
    next
      case (Cons d t')
      with Cons.prems have "utf8_unit c @ Buffer_from s = utf8_unit d @ Buffer_from t'"
        by (simp add: Buffer_from_def)
      then have "c = d" "Buffer_from s = Buffer_from t'"
        by (auto dest: utf8_unit_prefix_free)
      with Cons.IH Cons show ?thesis by simp
    qed
  qed
qed simp

text \<open>
  The check never raises: it answers whether the header is a non-empty string with
  the bytes of the expected signature, under a non-empty secret.
\<close>

lemma isValidSignature_iff:
  "isValidSignature rt rawBody hdr tok =
     Inr (\<exists>h. hdr = Some h \<and> h \<noteq> [] \<and> tok \<noteq> []
            \<and> Buffer_from (calculateNotionSignature rt rawBody tok) = Buffer_from h)"
  by (cases hdr) (auto simp: isValidSignature_def Let_def timingSafeEqual_same_length)

lemma isValidSignature_own:
  "tok \<noteq> [] \<Longrightarrow>
   isValidSignature rt rawBody (Some (calculateNotionSignature rt rawBody tok)) tok = Inr True"
  by (simp add: isValidSignature_iff calculateNotionSignature_def)

text \<open>
  Against the signature of a body, the check passes for that body, fails for every other
  header, and passes for another body exactly when the two digests are equal: whether
  a changed body is refused is the collision freedom of the digest, which the model
  takes as a parameter.
\<close>

lemma isValidSignature_other_header:
  "h \<noteq> calculateNotionSignature rt rawBody tok \<Longrightarrow>
   isValidSignature rt rawBody (Some h) tok = Inr False"
  by (auto simp: isValidSignature_iff Buffer_from_inject)

lemma isValidSignature_other_body:
  "tok \<noteq> [] \<Longrightarrow>
   isValidSignature rt rawBody' (Some (calculateNotionSignature rt rawBody tok)) tok
     = Inr (hmac_sha256_hex rt tok rawBody' = hmac_sha256_hex rt tok rawBody)"
  by (auto simp: isValidSignature_iff Buffer_from_inject calculateNotionSignature_def)

subsection \<open>Evaluations\<close>

lemma read_raw_hello: "read_json raw_hello = Some body_hello"
  unfolding raw_hello_def body_hello_def by code_simp

lemma read_not_json: "read_json ''not json'' = None"
  by code_simp

lemma read_form_text: "read_json ''pageId=p1'' = None"
  by code_simp

lemma token_env_shh: "NOTION_WEBHOOK_VERIFICATION_TOKEN env_shh = ''shh''"
  by (simp add: NOTION_WEBHOOK_VERIFICATION_TOKEN_def env_shh_def)

lemma read_empty_token: \<open>read_json ''{"verification_token":""}'' = Some (Obj [(''verification_token'', Str [])])\<close>
  by code_simp

lemma read_empty_token_typed:
  \<open>read_json ''{"type":"page.created","verification_token":""}''
     = Some (Obj [(''type'', Str ''page.created''), (''verification_token'', Str [])])\<close>
  by code_simp

lemma read_secret_token: \<open>read_json ''{"verification_token":"shh"}'' = Some (Obj [(''verification_token'', Str ''shh'')])\<close>
  by code_simp

lemma read_no_name:
  \<open>read_json ''{"pageId":"p1","properties":{}}''
     = Some (Obj [(''pageId'', Str ''p1''), (''properties'', Obj [])])\<close>
  by code_simp

lemma read_no_properties: \<open>read_json ''{"pageId":"p3"}'' = Some (Obj [(''pageId'', Str ''p3'')])\<close>
  by code_simp

subsection \<open>A body that is not JSON\<close>

text \<open>
  Claim C9. For every request whose raw body is not valid JSON, the handler ends with
  the exception of \<^verbatim>\<open>JSON.parse\<close>, which it does not catch: it produces no response,
  neither 200 nor 401, and it has sent nothing. The body is parsed before the
  handshake and the signature are looked at, so this holds whatever the signature
  header is, missing or wrong included.
\<close>

theorem POST_not_json_faults:
  assumes "JSON_parse rt (raw_text req) = None"
  shows "POST rt penv req = ([], Inl SyntaxError)"
  using assms by (simp add: POST_def)

theorem POST_not_json_faults_witness:
  "POST (test_platform remote_empty) env_shh \<lparr>raw_text = ''not json'', x_notion_signature = None\<rparr>
     = ([], Inl SyntaxError)"
  using POST_not_json_faults
    [of "test_platform remote_empty" "\<lparr>raw_text = ''not json'', x_notion_signature = None\<rparr>" env_shh]
  by (simp add: test_platform_def read_not_json)

subsection \<open>The two paths of the handler\<close>

text \<open>
  A request whose body parsed and that does not meet the guard of the handshake is on
  the path of event delivery: the check of the signature decides between the 401 and
  the derivation of the record with the upsert.
\<close>

lemma POST_unverified:
  assumes "JSON_parse rt (raw_text req) = Some body"
    and "\<not> (header_absent (x_notion_signature req) \<and> truthy (optional_member body ''verification_token''))"
    and "isValidSignature rt (raw_text req) (x_notion_signature req) (NOTION_WEBHOOK_VERIFICATION_TOKEN penv) = Inr False"
  shows "POST rt penv req = ([], Inr \<lparr>status = 401, response_body = Plain ''Invalid signature''\<rparr>)"
  using assms by (auto simp: POST_def Let_def)

lemma POST_verified:
  assumes "JSON_parse rt (raw_text req) = Some body"
    and "\<not> (header_absent (x_notion_signature req) \<and> truthy (optional_member body ''verification_token''))"
    and "isValidSignature rt (raw_text req) (x_notion_signature req) (NOTION_WEBHOOK_VERIFICATION_TOKEN penv) = Inr True"
  shows "POST rt penv req =
     (case notionData_of body of
        Inl e \<Rightarrow> ([], Inl e)
      | Inr notionData \<Rightarrow>
          (case updateOrCreateWebflowItem rt penv notionData of
             (sent, Inl e) \<Rightarrow> (sent, Inl e)
           | (sent, Inr webflowResponse) \<Rightarrow>
               (sent, Inr \<lparr>status = 200,
                  response_body = JSON_stringify (Obj
                    [(''success'', Bool True), (''webflowResponse'', webflowResponse)])\<rparr>)))"
  using assms by (auto simp: POST_def Let_def)

lemma POST_verified_not_401:
  assumes "JSON_parse rt (raw_text req) = Some body"
    and "\<not> (header_absent (x_notion_signature req) \<and> truthy (optional_member body ''verification_token''))"
    and "isValidSignature rt (raw_text req) (x_notion_signature req) (NOTION_WEBHOOK_VERIFICATION_TOKEN penv) = Inr True"
  shows "POST rt penv req \<noteq> ([], Inr \<lparr>status = 401, response_body = Plain ''Invalid signature''\<rparr>)"
  unfolding POST_verified [OF assms]
  by (auto split: sum.splits prod.splits)

text \<open>
  Claim C2 says that every request that does not take the handshake path and has no
  signature header is answered by a 401. The request with the text \<^verbatim>\<open>pageId=p1\<close>,
  which is no JSON, and no signature header does not take the handshake path: the
  handler ends with the SyntaxError of \<^verbatim>\<open>JSON.parse\<close> before it looks at the header,
  and it returns no response.
\<close>

theorem invalid_signature_not_json_counterexample:
  "read_json ''pageId=p1'' = None
   \<and> POST (test_platform remote_empty) env_shh \<lparr>raw_text = ''pageId=p1'', x_notion_signature = None\<rparr>
     = ([], Inl SyntaxError)
   \<and> POST (test_platform remote_empty) env_shh \<lparr>raw_text = ''pageId=p1'', x_notion_signature = None\<rparr>
     \<noteq> ([], Inr \<lparr>status = 401, response_body = Plain ''Invalid signature''\<rparr>)"
  by (simp add: read_form_text POST_def test_platform_def)

text \<open>
  Claim C2, amended. For every request whose body is valid JSON and that does not take
  the handshake path (the guard of the handshake is false): if the signature header is
  missing, or the configured secret is empty, or the header's bytes are not as many as
  those of the expected signature, or some byte of the header differs from the byte of
  the expected signature at its place, then the handler returns status 401 with the
  body \<^verbatim>\<open>Invalid signature\<close>, and it has sent nothing to the remote service.
\<close>

theorem invalid_signature_401:
  assumes parsed: "JSON_parse rt (raw_text req) = Some body"
    and delivery: "\<not> (header_absent (x_notion_signature req)
                      \<and> truthy (optional_member body ''verification_token''))"
    and bad: "x_notion_signature req = None
       \<or> NOTION_WEBHOOK_VERIFICATION_TOKEN penv = []
       \<or> (\<exists>h. x_notion_signature req = Some h
              \<and> length (Buffer_from h) \<noteq>
                  length (Buffer_from (calculateNotionSignature rt (raw_text req)
                    (NOTION_WEBHOOK_VERIFICATION_TOKEN penv))))
       \<or> (\<exists>h i. x_notion_signature req = Some h
              \<and> i < length (Buffer_from h)
              \<and> Buffer_from h ! i \<noteq>
                  Buffer_from (calculateNotionSignature rt (raw_text req)
                    (NOTION_WEBHOOK_VERIFICATION_TOKEN penv)) ! i)"
  shows "POST rt penv req = ([], Inr \<lparr>status = 401, response_body = Plain ''Invalid signature''\<rparr>)"
proof -
  have "isValidSignature rt (raw_text req) (x_notion_signature req)
          (NOTION_WEBHOOK_VERIFICATION_TOKEN penv) = Inr False"
    using bad unfolding isValidSignature_iff by auto
  with parsed delivery show ?thesis by (rule POST_unverified)
qed

theorem invalid_signature_401_witness:
  "POST (test_platform remote_empty) env_shh
      \<lparr>raw_text = raw_hello, x_notion_signature = Some ''Sha256=00''\<rparr>
     = ([], Inr \<lparr>status = 401, response_body = Plain ''Invalid signature''\<rparr>)"
proof -
  let ?rt = "test_platform remote_empty"
  let ?req = "\<lparr>raw_text = raw_hello, x_notion_signature = Some ''Sha256=00''\<rparr>"
  have parsed: "JSON_parse ?rt (raw_text ?req) = Some body_hello"
    by (simp add: test_platform_def read_raw_hello)
  have delivery: "\<not> (header_absent (x_notion_signature ?req)
                      \<and> truthy (optional_member body_hello ''verification_token''))"
    by (simp add: header_absent_def)
  have "0 < length (Buffer_from ''Sha256=00'')
      \<and> Buffer_from ''Sha256=00'' ! 0 \<noteq>
          Buffer_from (calculateNotionSignature ?rt raw_hello ''shh'') ! 0"
    by (simp add: Buffer_from_def utf8_unit_def calculateNotionSignature_def)
  then have "\<exists>h i. x_notion_signature ?req = Some h
              \<and> i < length (Buffer_from h)
              \<and> Buffer_from h ! i \<noteq>
                  Buffer_from (calculateNotionSignature ?rt (raw_text ?req)
                    (NOTION_WEBHOOK_VERIFICATION_TOKEN env_shh)) ! i"
    by (intro exI [of _ "''Sha256=00''"] exI [of _ 0]) (simp add: token_env_shh)
  then show ?thesis
    by (intro invalid_signature_401 [OF parsed delivery] disjI2)
qed

text \<open>
  Claim C10. For every request with no signature header whose body has a
  \<^verbatim>\<open>verification_token\<close> equal to the empty string, the guard of the handshake is
  false, since it tests the token's truthiness and not its presence: the handler goes
  on to the check of the signature and returns 401 with the body
  \<^verbatim>\<open>Invalid signature\<close>, not \<^verbatim>\<open>Verification token mismatch\<close>.
\<close>

theorem empty_token_falls_through:
  assumes "x_notion_signature req = None"
    and "JSON_parse rt (raw_text req) = Some body"
    and "lookup_member body ''verification_token'' = Str []"
  shows "\<not> (header_absent (x_notion_signature req)
            \<and> truthy (optional_member body ''verification_token''))
       \<and> POST rt penv req = ([], Inr \<lparr>status = 401, response_body = Plain ''Invalid signature''\<rparr>)"
proof -
  have guard: "\<not> (header_absent (x_notion_signature req)
            \<and> truthy (optional_member body ''verification_token''))"
    using assms(3) by (simp add: optional_member_def)
  have "isValidSignature rt (raw_text req) (x_notion_signature req)
          (NOTION_WEBHOOK_VERIFICATION_TOKEN penv) = Inr False"
    using assms(1) by (simp add: isValidSignature_def)
  with assms(2) guard show ?thesis by (simp add: POST_unverified)
qed

theorem empty_token_falls_through_witness:
  \<open>POST (test_platform remote_empty) Map.empty
      \<lparr>raw_text = ''{"type":"page.created","verification_token":""}'', x_notion_signature = None\<rparr>
     = ([], Inr \<lparr>status = 401, response_body = Plain ''Invalid signature''\<rparr>)\<close>
  using empty_token_falls_through
    [of \<open>\<lparr>raw_text = ''{"type":"page.created","verification_token":""}'', x_notion_signature = None\<rparr>\<close>
        "test_platform remote_empty"
        "Obj [(''type'', Str ''page.created''), (''verification_token'', Str [])]" Map.empty]
  by (simp add: test_platform_def read_empty_token_typed)

text \<open>
  Claim C3 says that every request with no signature header whose parsed body contains
  a \<^verbatim>\<open>verification_token\<close> takes the handshake path. The request with the body
  \<^verbatim>\<open>{"verification_token":""}\<close> and no signature header, under the secret \<^verbatim>\<open>shh\<close>,
  contains the field with a value that differs from the secret; the handler answers
  \<^verbatim>\<open>Invalid signature\<close> and not \<^verbatim>\<open>Verification token mismatch\<close>.
\<close>

theorem handshake_empty_token_counterexample:
  \<open>read_json ''{"verification_token":""}'' = Some (Obj [(''verification_token'', Str [])])
   \<and> NOTION_WEBHOOK_VERIFICATION_TOKEN env_shh = ''shh''
   \<and> POST (test_platform remote_empty) env_shh
        \<lparr>raw_text = ''{"verification_token":""}'', x_notion_signature = None\<rparr>
      = ([], Inr \<lparr>status = 401, response_body = Plain ''Invalid signature''\<rparr>)
   \<and> POST (test_platform remote_empty) env_shh
        \<lparr>raw_text = ''{"verification_token":""}'', x_notion_signature = None\<rparr>
      \<noteq> ([], Inr \<lparr>status = 401, response_body = Plain ''Verification token mismatch''\<rparr>)\<close>
  by (simp add: read_empty_token token_env_shh POST_def test_platform_def header_absent_def
      optional_member_def isValidSignature_def)

text \<open>
  Claim C3, amended. For every request with no signature header (absent or empty) whose
  parsed body has a truthy \<^verbatim>\<open>verification_token\<close> (any value but \<^verbatim>\<open>undefined\<close>,
  \<^verbatim>\<open>null\<close>, \<^verbatim>\<open>false\<close>, \<^verbatim>\<open>0\<close> and the empty string), the handler takes the handshake
  path: if a secret is configured and the token is not strictly equal to it, the
  response is 401 with the body \<^verbatim>\<open>Verification token mismatch\<close>; otherwise it is
  a 200 whose body is \<^verbatim>\<open>{"success": true}\<close>. Nothing is sent to the remote service.
\<close>

theorem handshake_truthy_token:
  assumes "header_absent (x_notion_signature req)"
    and "JSON_parse rt (raw_text req) = Some body"
    and "truthy (optional_member body ''verification_token'')"
  shows "POST rt penv req =
     ([], Inr (if NOTION_WEBHOOK_VERIFICATION_TOKEN penv \<noteq> []
                  \<and> lookup_member body ''verification_token''
                      \<noteq> Str (NOTION_WEBHOOK_VERIFICATION_TOKEN penv)
               then \<lparr>status = 401, response_body = Plain ''Verification token mismatch''\<rparr>
               else \<lparr>status = 200, response_body = JSON_stringify (Obj [(''success'', Bool True)])\<rparr>))"
proof -
  from assms(3) have "\<not> nullish body"
    by (auto simp: optional_member_def)
  then have "member body ''verification_token'' = Inr (lookup_member body ''verification_token'')"
    by (simp add: member_def)
  with assms show ?thesis by (simp add: POST_def)
qed

theorem handshake_truthy_token_witness:
  \<open>POST (test_platform remote_empty) env_shh
      \<lparr>raw_text = ''{"verification_token":"shh"}'', x_notion_signature = None\<rparr>
     = ([], Inr \<lparr>status = 200, response_body = JSON_stringify (Obj [(''success'', Bool True)])\<rparr>)\<close>
  using handshake_truthy_token
    [of \<open>\<lparr>raw_text = ''{"verification_token":"shh"}'', x_notion_signature = None\<rparr>\<close>
        "test_platform remote_empty" "Obj [(''verification_token'', Str ''shh'')]" env_shh]
  by (simp add: test_platform_def read_secret_token header_absent_def optional_member_def token_env_shh)

subsection \<open>The derived record and the upsert\<close>


lemma notionData_body_hello: "notionData_of body_hello = Inr data_hello"
  by (simp add: notionData_of_def body_hello_def data_hello_def bind_err_def member_def
      optional_rich_text_def first_plain_text_def optional_member_def)

lemma signed_request_verified:
  assumes "JSON_parse rt raw = Some body"
    and "\<not> truthy (optional_member body ''verification_token'')"
    and "NOTION_WEBHOOK_VERIFICATION_TOKEN penv = secret" and "secret \<noteq> []"
  shows "POST rt penv (signed_request rt secret raw) =
     (case notionData_of body of
        Inl e \<Rightarrow> ([], Inl e)
      | Inr notionData \<Rightarrow>
          (case updateOrCreateWebflowItem rt penv notionData of
             (sent, Inl e) \<Rightarrow> (sent, Inl e)
           | (sent, Inr webflowResponse) \<Rightarrow>
               (sent, Inr \<lparr>status = 200,
                  response_body = JSON_stringify (Obj
                    [(''success'', Bool True), (''webflowResponse'', webflowResponse)])\<rparr>)))"
proof (rule POST_verified)
  show "JSON_parse rt (raw_text (signed_request rt secret raw)) = Some body"
    using assms(1) by (simp add: signed_request_def)
  show "\<not> (header_absent (x_notion_signature (signed_request rt secret raw))
           \<and> truthy (optional_member body ''verification_token''))"
    using assms(2) by simp
  show "isValidSignature rt (raw_text (signed_request rt secret raw))
          (x_notion_signature (signed_request rt secret raw))
          (NOTION_WEBHOOK_VERIFICATION_TOKEN penv) = Inr True"
    using assms(3,4) by (simp add: signed_request_def isValidSignature_own)
qed

lemma token_body_hello: "\<not> truthy (optional_member body_hello ''verification_token'')"
  by (simp add: optional_member_def body_hello_def)

lemma fst_send_item: "fst (send_item rt sent r) = sent @ [r]"
  by (simp add: send_item_def split: fetch_result.splits)

lemma send_item_resolved:
  "fetch rt r = Resolved st j \<Longrightarrow> send_item rt sent r = (sent @ [r], Inr (json_or_empty j))"
  by (simp add: send_item_def)

lemma send_item_rejected:
  "fetch rt r = Rejected \<Longrightarrow> send_item rt sent r = (sent @ [r], Inl FetchFailed)"
  by (simp add: send_item_def)

lemma lookup_member_truthy: "lookup_member v k = Arr xs \<Longrightarrow> truthy v"
  by (cases v) simp_all

lemma no_first_item:
  "(\<forall>item rest. x \<noteq> Arr (item # rest)) \<longleftrightarrow> \<not> (isArray x \<and> 0 < array_length x)"
proof (cases x)
  case (Arr xs)
  then show ?thesis by (cases xs) simp_all
qed simp_all


lemma upsert_update:
  assumes "ToString (Number_toString rt) (slug nd) = Inr slug_str"
    and "fetch rt (find_request penv slug_str) = Resolved st j"
    and "lookup_member (json_or_empty j) ''items'' = Arr (item # rest)"
    and "\<not> nullish item"
    and "ToString (Number_toString rt) (lookup_member item ''_id'') = Inr item_str"
  shows "updateOrCreateWebflowItem rt penv nd =
           send_item rt [find_request penv slug_str] (update_request penv item_str nd)"
proof -
  from assms(3) have "truthy (json_or_empty j)"
    by (rule lookup_member_truthy)
  with assms show ?thesis
    by (simp add: updateOrCreateWebflowItem_def bind_err_def member_def)
qed

lemma upsert_create:
  assumes "ToString (Number_toString rt) (slug nd) = Inr slug_str"
    and "fetch rt (find_request penv slug_str) = Resolved st j"
    and "\<forall>item rest. lookup_member (json_or_empty j) ''items'' \<noteq> Arr (item # rest)"
  shows "updateOrCreateWebflowItem rt penv nd =
           send_item rt [find_request penv slug_str] (create_request penv nd)"
proof -
  from assms(3) have "\<not> (isArray (lookup_member (json_or_empty j) ''items'')
               \<and> 0 < array_length (lookup_member (json_or_empty j) ''items''))"
    using no_first_item [of "lookup_member (json_or_empty j) ''items''"] by blast
  with assms(1,2) show ?thesis
    by (auto simp: updateOrCreateWebflowItem_def)
qed


lemma collection_env_shh: "items_url env_shh = ''https://api.webflow.com/v2/collections/c1/items''"
  by (simp add: items_url_def COLLECTION_ID_def env_shh_def template_str_def)

lemma api_headers_env_shh:
  "api_headers env_shh = [(''Authorization'', ''Bearer key''), (''Content-Type'', ''application/json'')]"
  by (simp add: api_headers_def WEBFLOW_API_TOKEN_def env_shh_def template_str_def)




text \<open>
  Claim C6. For every record passed to the upsert whose lookup by slug is sent and
  answered: if the \<^verbatim>\<open>items\<close> of the answer (\<^verbatim>\<open>{}\<close> when it is no JSON) are a list that
  is not empty, the relay sends, after the lookup, exactly one request, a PATCH to the
  URL of the first item's identifier with the body
  \<^verbatim>\<open>{ isArchived: false, isDraft: false, fieldData: { name, slug, content } }\<close>, and
  no create; if the \<^verbatim>\<open>items\<close> are absent, no array or empty, it sends exactly one POST
  to the collection with the same body, and no PATCH. An item is what the answer of
  the remote service and the type \<^verbatim>\<open>WebflowItem\<close> have it to be, an object with a
  string \<^verbatim>\<open>_id\<close>; the second part of the statement is the same for any first element
  that is not \<^verbatim>\<open>null\<close> and whose \<^verbatim>\<open>_id\<close> has a string form.
\<close>

theorem upsert_update_or_create:
  assumes slug: "ToString (Number_toString rt) (slug notionData) = Inr slug_str"
    and found: "fetch rt (find_request penv slug_str) = Resolved st j"
    and item_fields: "item_fields = JSON_stringify (Obj
       [(''isArchived'', Bool False),
        (''isDraft'', Bool False),
        (''fieldData'', Obj
           [(''name'', title notionData),
            (''slug'', slug notionData),
            (''content'', content notionData)])])"
  shows "(\<forall>item rest item_id.
            lookup_member (json_or_empty j) ''items'' = Arr (item # rest)
            \<and> lookup_member item ''_id'' = Str item_id \<longrightarrow>
            fst (updateOrCreateWebflowItem rt penv notionData) =
              [find_request penv slug_str,
               \<lparr>url = items_url penv @ ''/'' @ item_id, http_method = ''PATCH'',
                headers = api_headers penv, fetch_body = Some item_fields\<rparr>])
       \<and> (\<forall>item rest item_str.
            lookup_member (json_or_empty j) ''items'' = Arr (item # rest)
            \<and> \<not> nullish item
            \<and> ToString (Number_toString rt) (lookup_member item ''_id'') = Inr item_str \<longrightarrow>
            fst (updateOrCreateWebflowItem rt penv notionData) =
              [find_request penv slug_str,
               \<lparr>url = items_url penv @ ''/'' @ item_str, http_method = ''PATCH'',
                headers = api_headers penv, fetch_body = Some item_fields\<rparr>])
       \<and> ((\<forall>item rest. lookup_member (json_or_empty j) ''items'' \<noteq> Arr (item # rest)) \<longrightarrow>
            fst (updateOrCreateWebflowItem rt penv notionData) =
              [find_request penv slug_str,
               \<lparr>url = items_url penv, http_method = ''POST'',
                headers = api_headers penv, fetch_body = Some item_fields\<rparr>])"
proof (intro conjI allI impI)
  have general: "fst (updateOrCreateWebflowItem rt penv notionData) =
              [find_request penv slug_str,
               \<lparr>url = items_url penv @ ''/'' @ item_str, http_method = ''PATCH'',
                headers = api_headers penv, fetch_body = Some item_fields\<rparr>]"
    if "lookup_member (json_or_empty j) ''items'' = Arr (item # rest)"
      and "\<not> nullish item"
      and "ToString (Number_toString rt) (lookup_member item ''_id'') = Inr item_str"
    for item rest item_str
    by (simp add: upsert_update [OF slug found that] fst_send_item update_request_def
        item_body_def item_fields)
  show "fst (updateOrCreateWebflowItem rt penv notionData) =
              [find_request penv slug_str,
               \<lparr>url = items_url penv @ ''/'' @ item_id, http_method = ''PATCH'',
                headers = api_headers penv, fetch_body = Some item_fields\<rparr>]"
    if "lookup_member (json_or_empty j) ''items'' = Arr (item # rest)
            \<and> lookup_member item ''_id'' = Str item_id"
    for item rest item_id
  proof (rule general [of item rest])
    from that show "lookup_member (json_or_empty j) ''items'' = Arr (item # rest)" by simp
    from that show "\<not> nullish item" by (cases item) auto
    from that show "ToString (Number_toString rt) (lookup_member item ''_id'') = Inr item_id"
      by simp
  qed
  show "fst (updateOrCreateWebflowItem rt penv notionData) =
              [find_request penv slug_str,
               \<lparr>url = items_url penv @ ''/'' @ item_str, http_method = ''PATCH'',
                headers = api_headers penv, fetch_body = Some item_fields\<rparr>]"
    if "lookup_member (json_or_empty j) ''items'' = Arr (item # rest)
            \<and> \<not> nullish item
            \<and> ToString (Number_toString rt) (lookup_member item ''_id'') = Inr item_str"
    for item rest item_str
    using that by (intro general [of item rest]) simp_all
  show "fst (updateOrCreateWebflowItem rt penv notionData) =
              [find_request penv slug_str,
               \<lparr>url = items_url penv, http_method = ''POST'',
                headers = api_headers penv, fetch_body = Some item_fields\<rparr>]"
    if "\<forall>item rest. lookup_member (json_or_empty j) ''items'' \<noteq> Arr (item # rest)"
    by (simp add: upsert_create [OF slug found that] fst_send_item create_request_def
        item_body_def item_fields)
qed

theorem upsert_update_or_create_witness:
  "fst (updateOrCreateWebflowItem (test_platform remote_found) env_shh data_hello)
     = [find_request env_shh ''hello'', update_request env_shh ''i1'' data_hello]
   \<and> fst (updateOrCreateWebflowItem (test_platform remote_empty) env_shh data_hello)
     = [find_request env_shh ''hello'', create_request env_shh data_hello]"
proof
  let ?rt = "test_platform remote_found"
  have slug: "ToString (Number_toString ?rt) (slug data_hello) = Inr ''hello''"
    by (simp add: data_hello_def)
  have found: "fetch ?rt (find_request env_shh ''hello'')
                 = Resolved 200 (Some (Obj [(''items'', Arr [Obj [(''_id'', Str ''i1'')]])]))"
    by (simp add: test_platform_def remote_found_def find_request_def)
  have item: "lookup_member (json_or_empty (Some (Obj [(''items'', Arr [Obj [(''_id'', Str ''i1'')]])]))) ''items''
                = Arr (Obj [(''_id'', Str ''i1'')] # [])
      \<and> lookup_member (Obj [(''_id'', Str ''i1'')]) ''_id'' = Str ''i1''"
    by (simp add: json_or_empty_def)
  from upsert_update_or_create [OF slug found refl, THEN conjunct1, rule_format, OF item]
  show "fst (updateOrCreateWebflowItem ?rt env_shh data_hello)
     = [find_request env_shh ''hello'', update_request env_shh ''i1'' data_hello]"
    by (simp add: update_request_def item_body_def)
next
  let ?rt = "test_platform remote_empty"
  have slug: "ToString (Number_toString ?rt) (slug data_hello) = Inr ''hello''"
    by (simp add: data_hello_def)
  have found: "fetch ?rt (find_request env_shh ''hello'') = Resolved 200 (Some (Obj [(''items'', Arr [])]))"
    by (simp add: test_platform_def remote_empty_def find_request_def)
  have none: "\<forall>item rest. lookup_member (json_or_empty (Some (Obj [(''items'', Arr [])]))) ''items''
                \<noteq> Arr (item # rest)"
    by (simp add: json_or_empty_def)
  from upsert_update_or_create [OF slug found refl, THEN conjunct2, THEN conjunct2, THEN mp, OF none]
  show "fst (updateOrCreateWebflowItem ?rt env_shh data_hello)
     = [find_request env_shh ''hello'', create_request env_shh data_hello]"
    by (simp add: create_request_def item_body_def)
qed

lemma upsert_status_independent:
  "updateOrCreateWebflowItem
     (rt\<lparr>fetch := \<lambda>r. case fetch rt r of Rejected \<Rightarrow> Rejected | Resolved st j \<Rightarrow> Resolved (f st) j\<rparr>)
     penv nd
   = updateOrCreateWebflowItem rt penv nd"
  by (auto simp: updateOrCreateWebflowItem_def send_item_def Let_def
      split: sum.splits fetch_result.splits)

lemma isValidSignature_fetch_update:
  "isValidSignature (rt\<lparr>fetch := g\<rparr>) rawBody hdr tok = isValidSignature rt rawBody hdr tok"
  by (simp add: isValidSignature_iff calculateNotionSignature_def)

lemma POST_status_independent:
  "POST (rt\<lparr>fetch := \<lambda>r. case fetch rt r of Rejected \<Rightarrow> Rejected | Resolved st j \<Rightarrow> Resolved (f st) j\<rparr>)
     penv req
   = POST rt penv req"
  by (simp add: POST_def Let_def isValidSignature_fetch_update upsert_status_independent
      split: option.splits sum.splits bool.splits)

text \<open>
  Claim C7 says that every successfully verified event is answered by a 200. The end-to-end
  event, correctly signed, with a remote service that cannot be reached: the lookup
  rejects and the handler ends with that exception, without a response.
\<close>

theorem verified_remote_down_counterexample:
  "isValidSignature (test_platform remote_down) raw_hello
      (x_notion_signature (signed_request (test_platform remote_down) ''shh'' raw_hello)) ''shh'' = Inr True
   \<and> POST (test_platform remote_down) env_shh (signed_request (test_platform remote_down) ''shh'' raw_hello)
     = ([find_request env_shh ''hello''], Inl FetchFailed)"
proof
  let ?rt = "test_platform remote_down"
  show "isValidSignature ?rt raw_hello (x_notion_signature (signed_request ?rt ''shh'' raw_hello)) ''shh''
          = Inr True"
    by (simp add: signed_request_def isValidSignature_own)
  have parsed: "JSON_parse ?rt raw_hello = Some body_hello"
    by (simp add: test_platform_def read_raw_hello)
  have "updateOrCreateWebflowItem ?rt env_shh data_hello
          = ([find_request env_shh ''hello''], Inl FetchFailed)"
    by (simp add: updateOrCreateWebflowItem_def data_hello_def test_platform_def remote_down_def)
  then show "POST ?rt env_shh (signed_request ?rt ''shh'' raw_hello)
     = ([find_request env_shh ''hello''], Inl FetchFailed)"
    by (subst signed_request_verified [OF parsed token_body_hello token_env_shh])
      (simp_all add: notionData_body_hello)
qed

text \<open>
  Claim C7, amended. For every successfully verified request of event delivery for
  which the derivation of the record raises nothing, the slug of the record has a
  string form, the lookup is answered and the write that follows it is answered (the
  update of a first found item that is not \<^verbatim>\<open>null\<close> and whose \<^verbatim>\<open>_id\<close> has a string form,
  or the create when there is no first item), the handler returns a 200 whose body is
  \<^verbatim>\<open>{ success: true, webflowResponse }\<close>, where \<^verbatim>\<open>webflowResponse\<close> is the body of the
  answer to the write decoded as JSON, or \<^verbatim>\<open>{}\<close> when the decoding fails. The statuses
  of the remote answers have no part in it: the statement holds for all of them, and
  replacing them by any others leaves the outcome of the handler unchanged.
\<close>

theorem verified_event_200:
  assumes parsed: "JSON_parse rt (raw_text req) = Some body"
    and delivery: "\<not> (header_absent (x_notion_signature req)
                      \<and> truthy (optional_member body ''verification_token''))"
    and valid: "isValidSignature rt (raw_text req) (x_notion_signature req)
                  (NOTION_WEBHOOK_VERIFICATION_TOKEN penv) = Inr True"
    and derived: "notionData_of body = Inr notionData"
    and slug: "ToString (Number_toString rt) (slug notionData) = Inr slug_str"
    and lookup: "fetch rt (find_request penv slug_str) = Resolved lookup_status lookup_json"
  shows "(\<forall>item rest item_str write_status write_json.
            lookup_member (json_or_empty lookup_json) ''items'' = Arr (item # rest)
            \<and> \<not> nullish item
            \<and> ToString (Number_toString rt) (lookup_member item ''_id'') = Inr item_str
            \<and> fetch rt (update_request penv item_str notionData) = Resolved write_status write_json
            \<longrightarrow>
            POST rt penv req =
              ([find_request penv slug_str, update_request penv item_str notionData],
               Inr \<lparr>status = 200,
                  response_body = JSON_stringify (Obj
                    [(''success'', Bool True),
                     (''webflowResponse'', json_or_empty write_json)])\<rparr>))
       \<and> (\<forall>write_status write_json.
            (\<forall>item rest. lookup_member (json_or_empty lookup_json) ''items'' \<noteq> Arr (item # rest))
            \<and> fetch rt (create_request penv notionData) = Resolved write_status write_json
            \<longrightarrow>
            POST rt penv req =
              ([find_request penv slug_str, create_request penv notionData],
               Inr \<lparr>status = 200,
                  response_body = JSON_stringify (Obj
                    [(''success'', Bool True),
                     (''webflowResponse'', json_or_empty write_json)])\<rparr>))
       \<and> (\<forall>f. POST (rt\<lparr>fetch := \<lambda>r. case fetch rt r of
                                        Rejected \<Rightarrow> Rejected
                                      | Resolved st j \<Rightarrow> Resolved (f st) j\<rparr>) penv req
              = POST rt penv req)"
proof (intro conjI allI impI)
  note post = POST_verified [OF parsed delivery valid]
  show "POST rt penv req =
              ([find_request penv slug_str, update_request penv item_str notionData],
               Inr \<lparr>status = 200,
                  response_body = JSON_stringify (Obj
                    [(''success'', Bool True),
                     (''webflowResponse'', json_or_empty write_json)])\<rparr>)"
    if "lookup_member (json_or_empty lookup_json) ''items'' = Arr (item # rest)
            \<and> \<not> nullish item
            \<and> ToString (Number_toString rt) (lookup_member item ''_id'') = Inr item_str
            \<and> fetch rt (update_request penv item_str notionData) = Resolved write_status write_json"
    for item rest item_str write_status write_json
  proof -
    from that have a: "lookup_member (json_or_empty lookup_json) ''items'' = Arr (item # rest)"
      and b: "\<not> nullish item"
      and c: "ToString (Number_toString rt) (lookup_member item ''_id'') = Inr item_str"
      and d: "fetch rt (update_request penv item_str notionData) = Resolved write_status write_json"
      by simp_all
    have "updateOrCreateWebflowItem rt penv notionData =
            ([find_request penv slug_str, update_request penv item_str notionData],
             Inr (json_or_empty write_json))"
      by (simp add: upsert_update [OF slug lookup a b c] send_item_resolved [OF d])
    then show ?thesis unfolding post by (simp add: derived)
  qed
  show "POST rt penv req =
              ([find_request penv slug_str, create_request penv notionData],
               Inr \<lparr>status = 200,
                  response_body = JSON_stringify (Obj
                    [(''success'', Bool True),
                     (''webflowResponse'', json_or_empty write_json)])\<rparr>)"
    if "(\<forall>item rest. lookup_member (json_or_empty lookup_json) ''items'' \<noteq> Arr (item # rest))
            \<and> fetch rt (create_request penv notionData) = Resolved write_status write_json"
    for write_status write_json
  proof -
    from that have a: "\<forall>item rest. lookup_member (json_or_empty lookup_json) ''items'' \<noteq> Arr (item # rest)"
      and d: "fetch rt (create_request penv notionData) = Resolved write_status write_json"
      by simp_all
    have "updateOrCreateWebflowItem rt penv notionData =
            ([find_request penv slug_str, create_request penv notionData],
             Inr (json_or_empty write_json))"
      by (simp add: upsert_create [OF slug lookup a] send_item_resolved [OF d])
    then show ?thesis unfolding post by (simp add: derived)
  qed
  show "POST (rt\<lparr>fetch := \<lambda>r. case fetch rt r of
                                        Rejected \<Rightarrow> Rejected
                                      | Resolved st j \<Rightarrow> Resolved (f st) j\<rparr>) penv req
              = POST rt penv req" for f
    by (rule POST_status_independent)
qed

theorem verified_event_200_witness:
  "POST (test_platform remote_found_failing) env_shh
      (signed_request (test_platform remote_found_failing) ''shh'' raw_hello)
     = ([find_request env_shh ''hello'', update_request env_shh ''i1'' data_hello],
        Inr \<lparr>status = 200,
           response_body = JSON_stringify (Obj
             [(''success'', Bool True), (''webflowResponse'', Obj [])])\<rparr>)
   \<and> POST (test_platform remote_failing) env_shh
      (signed_request (test_platform remote_failing) ''shh'' raw_hello)
     = ([find_request env_shh ''hello'', create_request env_shh data_hello],
        Inr \<lparr>status = 200,
           response_body = JSON_stringify (Obj
             [(''success'', Bool True), (''webflowResponse'', Obj [])])\<rparr>)"
proof
  let ?rt = "test_platform remote_found_failing"
  let ?req = "signed_request ?rt ''shh'' raw_hello"
  have parsed: "JSON_parse ?rt (raw_text ?req) = Some body_hello"
    by (simp add: test_platform_def signed_request_def read_raw_hello)
  have delivery: "\<not> (header_absent (x_notion_signature ?req)
                      \<and> truthy (optional_member body_hello ''verification_token''))"
    using token_body_hello by simp
  have valid: "isValidSignature ?rt (raw_text ?req) (x_notion_signature ?req)
                  (NOTION_WEBHOOK_VERIFICATION_TOKEN env_shh) = Inr True"
    by (simp add: signed_request_def isValidSignature_own token_env_shh)
  have slug: "ToString (Number_toString ?rt) (slug data_hello) = Inr ''hello''"
    by (simp add: data_hello_def)
  have lookup: "fetch ?rt (find_request env_shh ''hello'')
                  = Resolved 200 (Some (Obj [(''items'', Arr [Obj [(''_id'', Str ''i1'')]])]))"
    by (simp add: test_platform_def remote_found_failing_def find_request_def)
  have item: "lookup_member (json_or_empty (Some (Obj [(''items'', Arr [Obj [(''_id'', Str ''i1'')]])]))) ''items''
                = Arr (Obj [(''_id'', Str ''i1'')] # [])
      \<and> \<not> nullish (Obj [(''_id'', Str ''i1'')])
      \<and> ToString (Number_toString ?rt) (lookup_member (Obj [(''_id'', Str ''i1'')]) ''_id'') = Inr ''i1''
      \<and> fetch ?rt (update_request env_shh ''i1'' data_hello) = Resolved 500 None"
    by (simp add: json_or_empty_def test_platform_def remote_found_failing_def update_request_def)
  from verified_event_200 [OF parsed delivery valid notionData_body_hello slug lookup,
      THEN conjunct1, rule_format, OF item]
  show "POST ?rt env_shh ?req
     = ([find_request env_shh ''hello'', update_request env_shh ''i1'' data_hello],
        Inr \<lparr>status = 200,
           response_body = JSON_stringify (Obj
             [(''success'', Bool True), (''webflowResponse'', Obj [])])\<rparr>)"
    by (simp add: json_or_empty_def)
next
  let ?rt = "test_platform remote_failing"
  let ?req = "signed_request ?rt ''shh'' raw_hello"
  have parsed: "JSON_parse ?rt (raw_text ?req) = Some body_hello"
    by (simp add: test_platform_def signed_request_def read_raw_hello)
  have delivery: "\<not> (header_absent (x_notion_signature ?req)
                      \<and> truthy (optional_member body_hello ''verification_token''))"
    using token_body_hello by simp
  have valid: "isValidSignature ?rt (raw_text ?req) (x_notion_signature ?req)
                  (NOTION_WEBHOOK_VERIFICATION_TOKEN env_shh) = Inr True"
    by (simp add: signed_request_def isValidSignature_own token_env_shh)
  have slug: "ToString (Number_toString ?rt) (slug data_hello) = Inr ''hello''"
    by (simp add: data_hello_def)
  have lookup: "fetch ?rt (find_request env_shh ''hello'') = Resolved 500 None"
    by (simp add: test_platform_def remote_failing_def)
  have none: "(\<forall>item rest. lookup_member (json_or_empty None) ''items'' \<noteq> Arr (item # rest))
      \<and> fetch ?rt (create_request env_shh data_hello) = Resolved 500 None"
    by (simp add: json_or_empty_def test_platform_def remote_failing_def)
  from verified_event_200 [OF parsed delivery valid notionData_body_hello slug lookup,
      THEN conjunct2, THEN conjunct1, rule_format, OF none]
  show "POST ?rt env_shh ?req
     = ([find_request env_shh ''hello'', create_request env_shh data_hello],
        Inr \<lparr>status = 200,
           response_body = JSON_stringify (Obj
             [(''success'', Bool True), (''webflowResponse'', Obj [])])\<rparr>)"
    by (simp add: json_or_empty_def)
qed

lemma first_plain_text_nullish: "nullish runs \<Longrightarrow> first_plain_text runs = Inl TypeError"
  by (cases runs) (simp_all add: first_plain_text_def bind_err_def)

lemma first_plain_text_value:
  "\<not> nullish runs \<Longrightarrow> \<exists>v. first_plain_text runs = Inr v \<and> (runs = Arr [] \<longrightarrow> v = Undefined)"
  by (cases runs) (simp_all add: first_plain_text_def bind_err_def optional_member_def)

lemma first_plain_text_error:
  "first_plain_text runs = Inl e \<longleftrightarrow> nullish runs \<and> e = TypeError"
  by (cases runs) (auto simp: first_plain_text_def bind_err_def)

lemma optional_rich_text_cases:
  "optional_rich_text properties name =
     (if nullish properties \<or> nullish (lookup_member properties name) then Inr Undefined
      else first_plain_text (lookup_member (lookup_member properties name) ''rich_text''))"
  by (simp add: optional_rich_text_def member_def bind_err_def)

lemma optional_rich_text_value:
  assumes "nullish properties \<or> nullish (lookup_member properties name)
           \<or> \<not> nullish (lookup_member (lookup_member properties name) ''rich_text'')"
  shows "\<exists>v. optional_rich_text properties name = Inr v
           \<and> (nullish properties \<or> nullish (lookup_member properties name)
                \<or> lookup_member (lookup_member properties name) ''rich_text'' = Arr []
                \<longrightarrow> v = Undefined)"
proof (cases "nullish properties \<or> nullish (lookup_member properties name)")
  case True
  then show ?thesis by (simp add: optional_rich_text_cases)
next
  case False
  with assms have "\<not> nullish (lookup_member (lookup_member properties name) ''rich_text'')"
    by simp
  from first_plain_text_value [OF this] False show ?thesis
    by (simp add: optional_rich_text_cases)
qed

lemma member_first_plain_text:
  "bind_err (member v k) first_plain_text = first_plain_text (lookup_member v k)"
  by (cases v) (simp_all add: member_def bind_err_def first_plain_text_def)

text \<open>
  Claim C8 says that the derivation does not fail when \<^verbatim>\<open>properties\<close> is present and
  its \<^verbatim>\<open>Name\<close> is missing. The body \<^verbatim>\<open>{"pageId":"p1","properties":{}}\<close>, correctly
  signed: \<^verbatim>\<open>body.properties?.Name.title\<close> reads \<^verbatim>\<open>title\<close> of \<^verbatim>\<open>undefined\<close>, and the
  handler ends with the TypeError before the upsert.
\<close>

theorem missing_name_counterexample:
  \<open>read_json ''{"pageId":"p1","properties":{}}''
     = Some (Obj [(''pageId'', Str ''p1''), (''properties'', Obj [])])
   \<and> isValidSignature (test_platform remote_empty) ''{"pageId":"p1","properties":{}}''
       (x_notion_signature
          (signed_request (test_platform remote_empty) ''shh'' ''{"pageId":"p1","properties":{}}''))
       ''shh'' = Inr True
   \<and> notionData_of (Obj [(''pageId'', Str ''p1''), (''properties'', Obj [])]) = Inl TypeError
   \<and> POST (test_platform remote_empty) env_shh
       (signed_request (test_platform remote_empty) ''shh'' ''{"pageId":"p1","properties":{}}'')
     = ([], Inl TypeError)\<close>
proof (intro conjI)
  let ?rt = "test_platform remote_empty"
  let ?body = "Obj [(''pageId'', Str ''p1''), (''properties'', Obj [])]"
  show \<open>read_json ''{"pageId":"p1","properties":{}}'' = Some ?body\<close>
    by (rule read_no_name)
  then have parsed: \<open>JSON_parse ?rt ''{"pageId":"p1","properties":{}}'' = Some ?body\<close>
    by (simp add: test_platform_def)
  show \<open>isValidSignature ?rt ''{"pageId":"p1","properties":{}}''
       (x_notion_signature (signed_request ?rt ''shh'' ''{"pageId":"p1","properties":{}}''))
       ''shh'' = Inr True\<close>
    by (simp add: signed_request_def isValidSignature_own)
  show nd: "notionData_of ?body = Inl TypeError"
    by (simp add: notionData_of_def bind_err_def member_def)
  have token: "\<not> truthy (optional_member ?body ''verification_token'')"
    by (simp add: optional_member_def)
  show \<open>POST ?rt env_shh (signed_request ?rt ''shh'' ''{"pageId":"p1","properties":{}}'')
     = ([], Inl TypeError)\<close>
    by (subst signed_request_verified [OF parsed token token_env_shh]) (simp_all add: nd)
qed

text \<open>
  Claim C8, amended. For every successfully verified request of event delivery whose
  body is valid JSON, the derivation of the record fails, with a TypeError that ends
  the handler, exactly when the body is \<^verbatim>\<open>null\<close>, or \<^verbatim>\<open>properties\<close> is present and
  either \<^verbatim>\<open>Name\<close> or its \<^verbatim>\<open>title\<close> is missing, or a \<^verbatim>\<open>Slug\<close> or \<^verbatim>\<open>Content\<close> that is
  present has no \<^verbatim>\<open>rich_text\<close>. In every other case it succeeds: where \<^verbatim>\<open>properties\<close>
  is absent, where \<^verbatim>\<open>Slug\<close> or \<^verbatim>\<open>Content\<close> is absent, or where an array of runs is
  empty, the field of the record is \<^verbatim>\<open>undefined\<close>, and the handler goes on to the
  upsert of the record.
\<close>

theorem derivation_of_absent_fields:
  assumes parsed: "JSON_parse rt (raw_text req) = Some body"
    and delivery: "\<not> (header_absent (x_notion_signature req)
                      \<and> truthy (optional_member body ''verification_token''))"
    and valid: "isValidSignature rt (raw_text req) (x_notion_signature req)
                  (NOTION_WEBHOOK_VERIFICATION_TOKEN penv) = Inr True"
    and properties: "properties = lookup_member body ''properties''"
    and name_title: "name_title = lookup_member (lookup_member properties ''Name'') ''title''"
    and slug_text: "slug_text = lookup_member (lookup_member properties ''Slug'') ''rich_text''"
    and content_text: "content_text = lookup_member (lookup_member properties ''Content'') ''rich_text''"
    and fails: "fails \<longleftrightarrow>
       nullish body
       \<or> (\<not> nullish properties
           \<and> (nullish name_title
               \<or> (\<not> nullish (lookup_member properties ''Slug'') \<and> nullish slug_text)
               \<or> (\<not> nullish (lookup_member properties ''Content'') \<and> nullish content_text)))"
  shows "(fails \<longrightarrow> notionData_of body = Inl TypeError \<and> POST rt penv req = ([], Inl TypeError))
       \<and> (\<not> fails \<longrightarrow>
            (\<exists>notionData.
               notionData_of body = Inr notionData
               \<and> id' notionData = lookup_member body ''pageId''
               \<and> (nullish properties \<or> name_title = Arr [] \<longrightarrow> title notionData = Undefined)
               \<and> (nullish properties \<or> nullish (lookup_member properties ''Slug'')
                    \<or> slug_text = Arr [] \<longrightarrow> slug notionData = Undefined)
               \<and> (nullish properties \<or> nullish (lookup_member properties ''Content'')
                    \<or> content_text = Arr [] \<longrightarrow> content notionData = Undefined)
               \<and> POST rt penv req =
                   (case updateOrCreateWebflowItem rt penv notionData of
                      (sent, Inl e) \<Rightarrow> (sent, Inl e)
                    | (sent, Inr webflowResponse) \<Rightarrow>
                        (sent, Inr \<lparr>status = 200,
                           response_body = JSON_stringify (Obj
                             [(''success'', Bool True),
                              (''webflowResponse'', webflowResponse)])\<rparr>))))"
proof (intro conjI impI)
  note post = POST_verified [OF parsed delivery valid]
  have nd: "notionData_of body =
     (if nullish body then Inl TypeError
      else
        bind_err (if nullish properties then Inr Undefined else first_plain_text name_title)
          (\<lambda>title_text.
        bind_err (optional_rich_text properties ''Slug'') (\<lambda>slug_text.
        bind_err (optional_rich_text properties ''Content'') (\<lambda>content_text.
          Inr \<lparr>id' = lookup_member body ''pageId'', title = title_text, slug = slug_text,
               content = content_text\<rparr>))))"
    unfolding notionData_of_def member_first_plain_text
    by (simp add: member_def bind_err_def properties name_title)
  {
    assume fails
    then show failed: "notionData_of body = Inl TypeError"
      unfolding nd fails optional_rich_text_cases slug_text content_text
      by (auto simp: bind_err_def first_plain_text_nullish first_plain_text_error
          split: sum.splits)
    show "POST rt penv req = ([], Inl TypeError)"
      unfolding post by (simp add: failed)
  }
  assume ok: "\<not> fails"
  then have body: "\<not> nullish body"
    and title_ok: "nullish properties \<or> \<not> nullish name_title"
    and slug_ok: "nullish properties \<or> nullish (lookup_member properties ''Slug'') \<or> \<not> nullish slug_text"
    and content_ok: "nullish properties \<or> nullish (lookup_member properties ''Content'')
                       \<or> \<not> nullish content_text"
    unfolding fails by auto
  obtain t where t: "(if nullish properties then Inr Undefined else first_plain_text name_title) = Inr t"
    and t_absent: "nullish properties \<or> name_title = Arr [] \<longrightarrow> t = Undefined"
    using title_ok first_plain_text_value [of name_title] by (cases "nullish properties") auto
  obtain s where s: "optional_rich_text properties ''Slug'' = Inr s"
    and s_absent: "nullish properties \<or> nullish (lookup_member properties ''Slug'')
                    \<or> slug_text = Arr [] \<longrightarrow> s = Undefined"
    using optional_rich_text_value [of properties "''Slug''"] slug_ok
    unfolding slug_text by blast
  obtain c where c: "optional_rich_text properties ''Content'' = Inr c"
    and c_absent: "nullish properties \<or> nullish (lookup_member properties ''Content'')
                    \<or> content_text = Arr [] \<longrightarrow> c = Undefined"
    using optional_rich_text_value [of properties "''Content''"] content_ok
    unfolding content_text by blast
  have derived: "notionData_of body
        = Inr \<lparr>id' = lookup_member body ''pageId'', title = t, slug = s, content = c\<rparr>"
    unfolding nd using body by (simp add: t s c bind_err_def)
  show "\<exists>notionData.
               notionData_of body = Inr notionData
               \<and> id' notionData = lookup_member body ''pageId''
               \<and> (nullish properties \<or> name_title = Arr [] \<longrightarrow> title notionData = Undefined)
               \<and> (nullish properties \<or> nullish (lookup_member properties ''Slug'')
                    \<or> slug_text = Arr [] \<longrightarrow> slug notionData = Undefined)
               \<and> (nullish properties \<or> nullish (lookup_member properties ''Content'')
                    \<or> content_text = Arr [] \<longrightarrow> content notionData = Undefined)
               \<and> POST rt penv req =
                   (case updateOrCreateWebflowItem rt penv notionData of
                      (sent, Inl e) \<Rightarrow> (sent, Inl e)
                    | (sent, Inr webflowResponse) \<Rightarrow>
                        (sent, Inr \<lparr>status = 200,
                           response_body = JSON_stringify (Obj
                             [(''success'', Bool True),
                              (''webflowResponse'', webflowResponse)])\<rparr>))"
    using t_absent s_absent c_absent
    by (intro exI [of _ "\<lparr>id' = lookup_member body ''pageId'', title = t, slug = s, content = c\<rparr>"])
      (simp add: derived post)
qed

theorem derivation_of_absent_fields_witness:
  \<open>POST (test_platform remote_empty) env_shh
      (signed_request (test_platform remote_empty) ''shh'' ''{"pageId":"p3"}'')
     = ([find_request env_shh ''undefined'',
         create_request env_shh
           \<lparr>id' = Str ''p3'', title = Undefined, slug = Undefined, content = Undefined\<rparr>],
        Inr \<lparr>status = 200,
           response_body = JSON_stringify (Obj
             [(''success'', Bool True), (''webflowResponse'', Obj [(''id'', Str ''i2'')])])\<rparr>)
   \<and> POST (test_platform remote_empty) env_shh
      (signed_request (test_platform remote_empty) ''shh'' ''{"pageId":"p1","properties":{}}'')
     = ([], Inl TypeError)\<close>
proof
  let ?rt = "test_platform remote_empty"
  let ?req = \<open>signed_request ?rt ''shh'' ''{"pageId":"p3"}''\<close>
  let ?body = "Obj [(''pageId'', Str ''p3'')]"
  have parsed: "JSON_parse ?rt (raw_text ?req) = Some ?body"
    by (simp add: test_platform_def signed_request_def read_no_properties)
  have delivery: "\<not> (header_absent (x_notion_signature ?req)
                      \<and> truthy (optional_member ?body ''verification_token''))"
    by (simp add: optional_member_def)
  have valid: "isValidSignature ?rt (raw_text ?req) (x_notion_signature ?req)
                  (NOTION_WEBHOOK_VERIFICATION_TOKEN env_shh) = Inr True"
    by (simp add: signed_request_def isValidSignature_own token_env_shh)
  have ok: "\<not> (False \<longleftrightarrow>
       nullish ?body
       \<or> (\<not> nullish (lookup_member ?body ''properties'')
           \<and> (nullish (lookup_member (lookup_member (lookup_member ?body ''properties'') ''Name'') ''title'')
               \<or> (\<not> nullish (lookup_member (lookup_member ?body ''properties'') ''Slug'')
                   \<and> nullish (lookup_member (lookup_member (lookup_member ?body ''properties'') ''Slug'')
                               ''rich_text''))
               \<or> (\<not> nullish (lookup_member (lookup_member ?body ''properties'') ''Content'')
                   \<and> nullish (lookup_member (lookup_member (lookup_member ?body ''properties'')
                               ''Content'') ''rich_text'')))))
      \<Longrightarrow> False"
    by simp
  have absent: "nullish (lookup_member ?body ''properties'')"
    by simp
  from derivation_of_absent_fields [OF parsed delivery valid refl refl refl refl, of False]
  obtain notionData where "id' notionData = Str ''p3''"
    and "title notionData = Undefined" and "slug notionData = Undefined"
    and "content notionData = Undefined"
    and post: "POST ?rt env_shh ?req =
                   (case updateOrCreateWebflowItem ?rt env_shh notionData of
                      (sent, Inl e) \<Rightarrow> (sent, Inl e)
                    | (sent, Inr webflowResponse) \<Rightarrow>
                        (sent, Inr \<lparr>status = 200,
                           response_body = JSON_stringify (Obj
                             [(''success'', Bool True),
                              (''webflowResponse'', webflowResponse)])\<rparr>))"
    using ok absent by auto
  then have "notionData = \<lparr>id' = Str ''p3'', title = Undefined, slug = Undefined, content = Undefined\<rparr>"
    by simp
  moreover have "updateOrCreateWebflowItem ?rt env_shh
        \<lparr>id' = Str ''p3'', title = Undefined, slug = Undefined, content = Undefined\<rparr>
      = ([find_request env_shh ''undefined'',
          create_request env_shh
            \<lparr>id' = Str ''p3'', title = Undefined, slug = Undefined, content = Undefined\<rparr>],
         Inr (Obj [(''id'', Str ''i2'')]))"
    by (simp add: updateOrCreateWebflowItem_def test_platform_def remote_empty_def
        find_request_def create_request_def json_or_empty_def send_item_def)
  ultimately show \<open>POST ?rt env_shh ?req
     = ([find_request env_shh ''undefined'',
         create_request env_shh
           \<lparr>id' = Str ''p3'', title = Undefined, slug = Undefined, content = Undefined\<rparr>],
        Inr \<lparr>status = 200,
           response_body = JSON_stringify (Obj
             [(''success'', Bool True), (''webflowResponse'', Obj [(''id'', Str ''i2'')])])\<rparr>)\<close>
    using post by simp
next
  let ?rt = "test_platform remote_empty"
  let ?req = \<open>signed_request ?rt ''shh'' ''{"pageId":"p1","properties":{}}''\<close>
  let ?body = "Obj [(''pageId'', Str ''p1''), (''properties'', Obj [])]"
  have parsed: "JSON_parse ?rt (raw_text ?req) = Some ?body"
    by (simp add: test_platform_def signed_request_def read_no_name)
  have delivery: "\<not> (header_absent (x_notion_signature ?req)
                      \<and> truthy (optional_member ?body ''verification_token''))"
    by (simp add: optional_member_def)
  have valid: "isValidSignature ?rt (raw_text ?req) (x_notion_signature ?req)
                  (NOTION_WEBHOOK_VERIFICATION_TOKEN env_shh) = Inr True"
    by (simp add: signed_request_def isValidSignature_own token_env_shh)
  from derivation_of_absent_fields [OF parsed delivery valid refl refl refl refl, of True]
  show "POST ?rt env_shh ?req = ([], Inl TypeError)"
    by simp
qed

end
